theory Spec2Isabelle
  imports Main
begin

section \<open>torch/ao/quantization/quantizer/utils.py\<close>

text \<open>
  The module holds three groups of helpers: two functions that write a quantization spec
  into the annotation record kept in a graph node's \<open>meta\<close> dictionary, a predicate over
  the users of a node, and a family of memoised constructors of pattern matchers.

  Graph nodes are values of a type \<open>'n\<close>; torch.fx nodes define no equality of their
  own, so equality on \<open>'n\<close> is object identity. Quantization specs are values of a
  type \<open>'q\<close>.
\<close>

subsection \<open>Size-extraction predicate\<close>

text \<open>
  \<open>_is_sym_size_node\<close> is imported from \<open>torch.ao.quantization.pt2e.utils\<close>; it is a
  parameter here. \<open>node.users\<close> is the collection of the node's consumers, given by
  the parameter \<open>users\<close> in iteration order. \<open>user not in partition_nodes\<close> is list
  membership.
\<close>

definition node_only_used_for_sym_size ::
  "('n \<Rightarrow> bool) \<Rightarrow> ('n \<Rightarrow> 'n list) \<Rightarrow> 'n \<Rightarrow> 'n list \<Rightarrow> bool" where
  "node_only_used_for_sym_size is_sym_size_node users node partition_nodes =
     (if is_sym_size_node node then True
      else list_all (\<lambda>user. user \<notin> set partition_nodes \<or> is_sym_size_node user)
             (users node))"

text \<open>A graph for examples: node 0 extracts a size and its only user is node 1; node 2
  is used by nodes 0 and 3; nodes 1 and 3 extract no size.\<close>

definition example_is_sym_size_node :: "nat \<Rightarrow> bool" where
  "example_is_sym_size_node n = (n = 0)"

definition example_users :: "nat \<Rightarrow> nat list" where
  "example_users n = (if n = 0 then [1] else if n = 2 then [0, 3] else [])"

subsection \<open>Annotation records in node metadata\<close>

text \<open>
  Python objects are shared by reference, so the annotation records and the dictionaries
  they point to live in a store, addressed by natural numbers. \<open>meta s n\<close> is the
  \<open>meta\<close> dictionary of node \<open>n\<close> (each node owns its dictionary); the entry under
  \<open>''quantization_annotation''\<close> is the address of an annotation record. A record's
  \<open>input_qspec_map\<close> field is \<open>None\<close> or the address of a dictionary from input nodes to
  specs. Addresses from \<open>next_annotation\<close> and \<open>next_dict\<close> on are not yet allocated.
\<close>

type_synonym addr = nat

record 'q QuantizationAnnotation =
  input_qspec_map :: "addr option"
  output_qspec :: 'q

record ('n, 'q) store =
  meta :: "'n \<Rightarrow> string \<rightharpoonup> addr"
  annotations :: "addr \<Rightarrow> 'q QuantizationAnnotation"
  next_annotation :: addr
  dicts :: "addr \<Rightarrow> ('n \<rightharpoonup> 'q)"
  next_dict :: addr

text \<open>
  The class \<open>QuantizationAnnotation\<close> is imported from
  \<open>torch.ao.quantization.quantizer.quantizer\<close>; the values its constructor gives the two
  fields are parameters: \<open>default_input_qspec_map\<close> is \<open>None\<close> when a new record has no
  dictionary, and \<open>Some m\<close> when it gets a newly created dictionary with contents \<open>m\<close>.
\<close>

record ('n, 'q) annotation_class =
  default_input_qspec_map :: "('n \<rightharpoonup> 'q) option"
  default_output_qspec :: 'q

definition new_QuantizationAnnotation ::
  "('n, 'q) annotation_class \<Rightarrow> ('n, 'q) store \<Rightarrow> addr \<times> ('n, 'q) store" where
  "new_QuantizationAnnotation cls s =
     (let a = next_annotation s in
      case default_input_qspec_map cls of
        None \<Rightarrow>
          (a, s\<lparr>annotations := (annotations s)
                    (a := \<lparr>input_qspec_map = None, output_qspec = default_output_qspec cls\<rparr>),
                 next_annotation := Suc a\<rparr>)
      | Some m \<Rightarrow>
          (let d = next_dict s in
           (a, s\<lparr>annotations := (annotations s)
                    (a := \<lparr>input_qspec_map = Some d, output_qspec = default_output_qspec cls\<rparr>),
                  next_annotation := Suc a,
                  dicts := (dicts s)(d := m),
                  next_dict := Suc d\<rparr>)))"

text \<open>
  \<open>node.meta.get("quantization_annotation", QuantizationAnnotation())\<close>: the default
  argument is evaluated before the lookup, so a record is constructed on every call and
  dropped when the key is present.
\<close>

definition meta_get_quantization_annotation ::
  "('n, 'q) annotation_class \<Rightarrow> 'n \<Rightarrow> ('n, 'q) store \<Rightarrow> addr \<times> ('n, 'q) store" where
  "meta_get_quantization_annotation cls node s =
     (let (fresh, s1) = new_QuantizationAnnotation cls s in
      case meta s1 node ''quantization_annotation'' of
        Some a \<Rightarrow> (a, s1)
      | None \<Rightarrow> (fresh, s1))"

definition annotate_input_qspec_map ::
  "('n, 'q) annotation_class \<Rightarrow> 'n \<Rightarrow> 'n \<Rightarrow> 'q \<Rightarrow> ('n, 'q) store \<Rightarrow> ('n, 'q) store" where
  "annotate_input_qspec_map cls node input_node qspec s =
     (let (quantization_annotation, s1) = meta_get_quantization_annotation cls node s;
          (d, s2) =
            (case input_qspec_map (annotations s1 quantization_annotation) of
               None \<Rightarrow>
                 (let d = next_dict s1 in
                  (d, s1\<lparr>dicts := (dicts s1)(d := Map.empty),
                         next_dict := Suc d,
                         annotations := (annotations s1)
                           (quantization_annotation :=
                              (annotations s1 quantization_annotation)
                                \<lparr>input_qspec_map := Some d\<rparr>)\<rparr>))
             | Some d \<Rightarrow> (d, s1));
          s3 = s2\<lparr>dicts := (dicts s2)(d := (dicts s2 d)(input_node \<mapsto> qspec))\<rparr>
      in s3\<lparr>meta := (meta s3)
                (node := (meta s3 node)(''quantization_annotation'' \<mapsto> quantization_annotation))\<rparr>)"

definition annotate_output_qspec ::
  "('n, 'q) annotation_class \<Rightarrow> 'n \<Rightarrow> 'q \<Rightarrow> ('n, 'q) store \<Rightarrow> ('n, 'q) store" where
  "annotate_output_qspec cls node qspec s =
     (let (quantization_annotation, s1) = meta_get_quantization_annotation cls node s;
          s2 = s1\<lparr>annotations := (annotations s1)
                  (quantization_annotation :=
                     (annotations s1 quantization_annotation)\<lparr>output_qspec := qspec\<rparr>)\<rparr>
      in s2\<lparr>meta := (meta s2)
                (node := (meta s2 node)(''quantization_annotation'' \<mapsto> quantization_annotation))\<rparr>)"

text \<open>What a caller reads back through a node: \<open>node.meta["quantization_annotation"]\<close>
  and its two fields.\<close>

definition annotation_of :: "('n, 'q) store \<Rightarrow> 'n \<Rightarrow> addr option" where
  "annotation_of s node = meta s node ''quantization_annotation''"

definition output_qspec_of :: "('n, 'q) store \<Rightarrow> 'n \<Rightarrow> 'q option" where
  "output_qspec_of s node =
     (case annotation_of s node of
        None \<Rightarrow> None
      | Some a \<Rightarrow> Some (output_qspec (annotations s a)))"

definition input_qspec_map_of :: "('n, 'q) store \<Rightarrow> 'n \<Rightarrow> ('n \<rightharpoonup> 'q) option" where
  "input_qspec_map_of s node =
     (case annotation_of s node of
        None \<Rightarrow> None
      | Some a \<Rightarrow>
          (case input_qspec_map (annotations s a) of
             None \<Rightarrow> None
           | Some d \<Rightarrow> Some (dicts s d)))"

text \<open>
  A store is well formed when no reference dangles: every annotation address held in a
  node's metadata is allocated, and so is every dictionary address held in an allocated
  annotation record.
\<close>

definition wf_store :: "('n, 'q) store \<Rightarrow> bool" where
  "wf_store s \<longleftrightarrow>
     (\<forall>n a. annotation_of s n = Some a \<longrightarrow> a < next_annotation s) \<and>
     (\<forall>a d. a < next_annotation s \<longrightarrow> input_qspec_map (annotations s a) = Some d
        \<longrightarrow> d < next_dict s)"

text \<open>The address of the dictionary a node's annotation record points to.\<close>

definition input_qspec_dict_of :: "('n, 'q) store \<Rightarrow> 'n \<Rightarrow> addr option" where
  "input_qspec_dict_of s node =
     (case annotation_of s node of
        None \<Rightarrow> None
      | Some a \<Rightarrow> input_qspec_map (annotations s a))"


text \<open>
  The entries a call of \<open>_annotate_input_qspec_map\<close> starts from: those of the
  dictionary of the node's annotation record, none when the record's field is \<open>None\<close>,
  and those of a new record when the node has no annotation yet.
\<close>

definition entries_before :: "('n, 'q) annotation_class \<Rightarrow> ('n, 'q) store \<Rightarrow> 'n \<Rightarrow> ('n \<rightharpoonup> 'q)" where
  "entries_before cls s node =
     (case annotation_of s node of
        None \<Rightarrow> (case default_input_qspec_map cls of None \<Rightarrow> Map.empty | Some m \<Rightarrow> m)
      | Some a \<Rightarrow>
          (case input_qspec_map (annotations s a) of
             None \<Rightarrow> Map.empty
           | Some d \<Rightarrow> dicts s d))"


text \<open>
  A store for examples: nodes 5 and 6 hold the same annotation record (address 0), whose
  dictionary (address 0) maps input node 7 to \<open>''uint8''\<close>; no other node is
  annotated.
\<close>

definition example_class :: "(nat, string) annotation_class" where
  "example_class = \<lparr>default_input_qspec_map = Some Map.empty, default_output_qspec = ''unset''\<rparr>"

definition example_store :: "(nat, string) store" where
  "example_store =
     \<lparr>meta = (\<lambda>n. if n = 5 \<or> n = 6 then [''quantization_annotation'' \<mapsto> 0] else Map.empty),
      annotations = (\<lambda>a. \<lparr>input_qspec_map = Some 0, output_qspec = ''int8''\<rparr>),
      next_annotation = 1,
      dicts = (\<lambda>d. [7 \<mapsto> ''uint8'']),
      next_dict = 1\<rparr>"

subsection \<open>Conv-unary pattern templates\<close>

text \<open>
  Tensor operators (\<open>conv2d\<close>, \<open>batch_norm\<close>, the activation functions) belong to the
  framework. Here an operator is a function of its arguments that returns a value of a
  type \<open>'v\<close> or raises an error of a type \<open>'e\<close> (\<open>Inl\<close>). The four batch-norm
  arguments of the template default to \<open>None\<close>, so they are optional values. The name
  map returned with the output is a dictionary with string keys.
\<close>

type_synonym ('v, 'e) pattern =
  "'v \<Rightarrow> 'v \<Rightarrow> 'v \<Rightarrow> 'v option \<Rightarrow> 'v option \<Rightarrow> 'v option \<Rightarrow> 'v option
     \<Rightarrow> 'e + 'v \<times> (string \<rightharpoonup> 'v)"

text \<open>The inner function \<open>_conv_unary\<close>, closed over \<open>conv_fn\<close>, \<open>has_bn\<close>,
  \<open>unary_fn\<close> and the global \<open>F.batch_norm\<close>.\<close>

definition conv_unary ::
  "('v \<Rightarrow> 'v option \<Rightarrow> 'v option \<Rightarrow> 'v option \<Rightarrow> 'v option \<Rightarrow> bool \<Rightarrow> 'e + 'v) \<Rightarrow>
   ('v \<Rightarrow> 'v \<Rightarrow> 'v \<Rightarrow> 'e + 'v) \<Rightarrow> bool \<Rightarrow> ('v \<Rightarrow> 'e + 'v) option \<Rightarrow> ('v, 'e) pattern" where
  "conv_unary F_batch_norm conv_fn has_bn unary_fn
       x conv_weight conv_bias bn_weight bn_bias bn_rm bn_rv =
     (case conv_fn x conv_weight conv_bias of
        Inl e \<Rightarrow> Inl e
      | Inr conv \<Rightarrow>
          (case (if has_bn then F_batch_norm conv bn_rm bn_rv bn_weight bn_bias True
                 else Inr conv) of
             Inl e \<Rightarrow> Inl e
           | Inr bn \<Rightarrow>
               (case (case unary_fn of Some f \<Rightarrow> f bn | None \<Rightarrow> Inr bn) of
                  Inl e \<Rightarrow> Inl e
                | Inr unary \<Rightarrow>
                    (let output = unary in
                     Inr (output,
                          [''input'' \<mapsto> x, ''conv'' \<mapsto> conv, ''conv_weight'' \<mapsto> conv_weight,
                           ''conv_bias'' \<mapsto> conv_bias, ''bn'' \<mapsto> bn, ''unary'' \<mapsto> unary,
                           ''output'' \<mapsto> output])))))"

definition get_conv_unary_pattern ::
  "('v \<Rightarrow> 'v option \<Rightarrow> 'v option \<Rightarrow> 'v option \<Rightarrow> 'v option \<Rightarrow> bool \<Rightarrow> 'e + 'v) \<Rightarrow>
   ('v \<Rightarrow> 'v \<Rightarrow> 'v \<Rightarrow> 'e + 'v) \<Rightarrow> bool \<Rightarrow> ('v \<Rightarrow> 'e + 'v) option \<Rightarrow> ('v, 'e) pattern" where
  "get_conv_unary_pattern F_batch_norm conv_fn has_bn unary_fn =
     conv_unary F_batch_norm conv_fn has_bn unary_fn"

subsection \<open>Cached pattern matchers\<close>

text \<open>
  What the module takes from the framework: the operators, the two example-input
  constants, the tracer \<open>get_aten_graph_module\<close>, the graph methods
  \<open>eliminate_dead_code\<close> and \<open>recompile\<close>, and the initialiser of the class
  \<open>SubgraphMatcherWithNameNodeMap\<close>. The framework calls act on a state of a type
  \<open>'w\<close>: each takes the state and returns a result or an error together with the new
  state. \<open>relu_inplace\<close>, \<open>hardtanh_inplace\<close> and \<open>ReLU6_inplace\<close> stand for
  \<open>F.relu_\<close>, \<open>F.hardtanh_\<close> and \<open>torch.nn.ReLU6(inplace=True)\<close>.
\<close>

record ('v, 'e, 'x, 'g, 'm, 'w) torch =
  conv2d :: "'v \<Rightarrow> 'v \<Rightarrow> 'v \<Rightarrow> 'e + 'v"
  batch_norm :: "'v \<Rightarrow> 'v option \<Rightarrow> 'v option \<Rightarrow> 'v option \<Rightarrow> 'v option \<Rightarrow> bool \<Rightarrow> 'e + 'v"
  relu :: "'v \<Rightarrow> 'e + 'v"
  relu_inplace :: "'v \<Rightarrow> 'e + 'v"
  hardtanh :: "'v \<Rightarrow> 'e + 'v"
  hardtanh_inplace :: "'v \<Rightarrow> 'e + 'v"
  relu6 :: "'v \<Rightarrow> 'e + 'v"
  ReLU6_inplace :: "'v \<Rightarrow> 'e + 'v"
  conv2d_example_inputs :: 'x
  conv2d_bn_example_inputs :: 'x
  get_aten_graph_module :: "('v, 'e) pattern \<Rightarrow> 'x \<Rightarrow> 'w \<Rightarrow> ('e + 'g) \<times> 'w"
  eliminate_dead_code :: "'g \<Rightarrow> 'w \<Rightarrow> ('e + unit) \<times> 'w"
  recompile :: "'g \<Rightarrow> 'w \<Rightarrow> ('e + unit) \<times> 'w"
  SubgraphMatcherWithNameNodeMap_init :: "'g \<Rightarrow> bool \<Rightarrow> 'w \<Rightarrow> ('e + 'm) \<times> 'w"

text \<open>
  Each accessor is wrapped by \<open>functools.lru_cache(None)\<close> and takes no argument, so
  its cache has at most one entry; \<open>cached_function\<close> names the eight wrapped
  functions. Matcher objects are kept in the list \<open>matchers\<close>; an object is identified
  by its position there, and instantiating the class appends a new object.
\<close>

datatype cached_function =
  Conv2d | Conv2dBn | Conv2dRelu | Conv2dInplaceRelu
| Conv2dHardtanh | Conv2dInplaceHardtanh | Conv2dRelu6 | Conv2dInplaceRelu6

record ('m, 'w) process =
  world :: 'w
  matchers :: "'m list"
  lru_cache :: "cached_function \<Rightarrow> addr option"

definition generate_pattern_matcher_helper ::
  "('v, 'e, 'x, 'g, 'm, 'w) torch \<Rightarrow> ('v, 'e) pattern \<Rightarrow> 'x \<Rightarrow> ('m, 'w) process
     \<Rightarrow> ('e + addr) \<times> ('m, 'w) process" where
  "generate_pattern_matcher_helper t pattern example_inputs s =
     (case get_aten_graph_module t pattern example_inputs (world s) of
        (Inl e, w1) \<Rightarrow> (Inl e, s\<lparr>world := w1\<rparr>)
      | (Inr g, w1) \<Rightarrow>
          (case eliminate_dead_code t g w1 of
             (Inl e, w2) \<Rightarrow> (Inl e, s\<lparr>world := w2\<rparr>)
           | (Inr _, w2) \<Rightarrow>
               (case recompile t g w2 of
                  (Inl e, w3) \<Rightarrow> (Inl e, s\<lparr>world := w3\<rparr>)
                | (Inr _, w3) \<Rightarrow>
                    (case SubgraphMatcherWithNameNodeMap_init t g True w3 of
                       (Inl e, w4) \<Rightarrow> (Inl e, s\<lparr>world := w4\<rparr>)
                     | (Inr m, w4) \<Rightarrow>
                         (Inr (length (matchers s)),
                          s\<lparr>world := w4, matchers := matchers s @ [m]\<rparr>)))))"

text \<open>
  The wrapper made by \<open>functools.lru_cache(None)\<close> for a function without arguments:
  a stored result is returned as it is; otherwise the function runs, and its result is
  stored only when it returns. An exception leaves the cache as it was.
\<close>

definition lru_cached ::
  "cached_function \<Rightarrow> (('m, 'w) process \<Rightarrow> ('e + addr) \<times> ('m, 'w) process)
     \<Rightarrow> ('m, 'w) process \<Rightarrow> ('e + addr) \<times> ('m, 'w) process" where
  "lru_cached k user_function s =
     (case lru_cache s k of
        Some result \<Rightarrow> (Inr result, s)
      | None \<Rightarrow>
          (case user_function s of
             (Inl e, s1) \<Rightarrow> (Inl e, s1)
           | (Inr result, s1) \<Rightarrow>
               (Inr result, s1\<lparr>lru_cache := (lru_cache s1)(k := Some result)\<rparr>)))"

definition generate_conv2d_pattern_matcher ::
  "('v, 'e, 'x, 'g, 'm, 'w) torch \<Rightarrow> ('m, 'w) process \<Rightarrow> ('e + addr) \<times> ('m, 'w) process" where
  "generate_conv2d_pattern_matcher t =
     lru_cached Conv2d
       (generate_pattern_matcher_helper t
          (get_conv_unary_pattern (batch_norm t) (conv2d t) False None)
          (conv2d_example_inputs t))"

definition generate_conv2d_bn_pattern_matcher ::
  "('v, 'e, 'x, 'g, 'm, 'w) torch \<Rightarrow> ('m, 'w) process \<Rightarrow> ('e + addr) \<times> ('m, 'w) process" where
  "generate_conv2d_bn_pattern_matcher t =
     lru_cached Conv2dBn
       (generate_pattern_matcher_helper t
          (get_conv_unary_pattern (batch_norm t) (conv2d t) True None)
          (conv2d_bn_example_inputs t))"

definition generate_conv2d_relu_pattern_matcher ::
  "('v, 'e, 'x, 'g, 'm, 'w) torch \<Rightarrow> ('m, 'w) process \<Rightarrow> ('e + addr) \<times> ('m, 'w) process" where
  "generate_conv2d_relu_pattern_matcher t =
     lru_cached Conv2dRelu
       (generate_pattern_matcher_helper t
          (get_conv_unary_pattern (batch_norm t) (conv2d t) False (Some (relu t)))
          (conv2d_example_inputs t))"

definition generate_conv2d_inplace_relu_pattern_matcher ::
  "('v, 'e, 'x, 'g, 'm, 'w) torch \<Rightarrow> ('m, 'w) process \<Rightarrow> ('e + addr) \<times> ('m, 'w) process" where
  "generate_conv2d_inplace_relu_pattern_matcher t =
     lru_cached Conv2dInplaceRelu
       (generate_pattern_matcher_helper t
          (get_conv_unary_pattern (batch_norm t) (conv2d t) False (Some (relu_inplace t)))
          (conv2d_example_inputs t))"

definition generate_conv2d_hardtanh_pattern_matcher ::
  "('v, 'e, 'x, 'g, 'm, 'w) torch \<Rightarrow> ('m, 'w) process \<Rightarrow> ('e + addr) \<times> ('m, 'w) process" where
  "generate_conv2d_hardtanh_pattern_matcher t =
     lru_cached Conv2dHardtanh
       (generate_pattern_matcher_helper t
          (get_conv_unary_pattern (batch_norm t) (conv2d t) False (Some (hardtanh t)))
          (conv2d_example_inputs t))"

definition generate_conv2d_inplace_hardtanh_pattern_matcher ::
  "('v, 'e, 'x, 'g, 'm, 'w) torch \<Rightarrow> ('m, 'w) process \<Rightarrow> ('e + addr) \<times> ('m, 'w) process" where
  "generate_conv2d_inplace_hardtanh_pattern_matcher t =
     lru_cached Conv2dInplaceHardtanh
       (generate_pattern_matcher_helper t
          (get_conv_unary_pattern (batch_norm t) (conv2d t) False (Some (hardtanh_inplace t)))
          (conv2d_example_inputs t))"

definition generate_conv2d_relu6_pattern_matcher ::
  "('v, 'e, 'x, 'g, 'm, 'w) torch \<Rightarrow> ('m, 'w) process \<Rightarrow> ('e + addr) \<times> ('m, 'w) process" where
  "generate_conv2d_relu6_pattern_matcher t =
     lru_cached Conv2dRelu6
       (generate_pattern_matcher_helper t
          (get_conv_unary_pattern (batch_norm t) (conv2d t) False (Some (relu6 t)))
          (conv2d_example_inputs t))"

definition generate_conv2d_inplace_relu6_pattern_matcher ::
  "('v, 'e, 'x, 'g, 'm, 'w) torch \<Rightarrow> ('m, 'w) process \<Rightarrow> ('e + addr) \<times> ('m, 'w) process" where
  "generate_conv2d_inplace_relu6_pattern_matcher t =
     lru_cached Conv2dInplaceRelu6
       (generate_pattern_matcher_helper t
          (get_conv_unary_pattern (batch_norm t) (conv2d t) False (Some (ReLU6_inplace t)))
          (conv2d_example_inputs t))"

text \<open>\<open>invoke t k\<close> calls the accessor named \<open>k\<close>; \<open>invoke_all t ks\<close> calls the
  accessors \<open>ks\<close> one after the other, dropping what they return or raise.\<close>

fun invoke ::
  "('v, 'e, 'x, 'g, 'm, 'w) torch \<Rightarrow> cached_function \<Rightarrow> ('m, 'w) process
     \<Rightarrow> ('e + addr) \<times> ('m, 'w) process" where
  "invoke t Conv2d = generate_conv2d_pattern_matcher t"
| "invoke t Conv2dBn = generate_conv2d_bn_pattern_matcher t"
| "invoke t Conv2dRelu = generate_conv2d_relu_pattern_matcher t"
| "invoke t Conv2dInplaceRelu = generate_conv2d_inplace_relu_pattern_matcher t"
| "invoke t Conv2dHardtanh = generate_conv2d_hardtanh_pattern_matcher t"
| "invoke t Conv2dInplaceHardtanh = generate_conv2d_inplace_hardtanh_pattern_matcher t"
| "invoke t Conv2dRelu6 = generate_conv2d_relu6_pattern_matcher t"
| "invoke t Conv2dInplaceRelu6 = generate_conv2d_inplace_relu6_pattern_matcher t"

fun invoke_all ::
  "('v, 'e, 'x, 'g, 'm, 'w) torch \<Rightarrow> cached_function list \<Rightarrow> ('m, 'w) process
     \<Rightarrow> ('m, 'w) process" where
  "invoke_all t [] s = s"
| "invoke_all t (k # ks) s = invoke_all t ks (snd (invoke t k s))"

text \<open>The process right after the module is imported: nothing cached, no matcher built.\<close>

definition initial_process :: "'w \<Rightarrow> ('m, 'w) process" where
  "initial_process w = \<lparr>world = w, matchers = [], lru_cache = (\<lambda>k. None)\<rparr>"

text \<open>Cached results are existing matcher objects, and no two accessors hold the same
  one.\<close>

definition cache_ok :: "('m, 'w) process \<Rightarrow> bool" where
  "cache_ok s \<longleftrightarrow>
     (\<forall>k a. lru_cache s k = Some a \<longrightarrow> a < length (matchers s)) \<and>
     (\<forall>k k' a. lru_cache s k = Some a \<longrightarrow> lru_cache s k' = Some a \<longrightarrow> k = k')"

text \<open>
  A framework for examples: values are integers, the framework state counts the calls of
  the tracer, and the tracer fails on its first call (state 0) only.
\<close>

definition example_torch :: "(int, string, unit, nat, nat, nat) torch" where
  "example_torch =
     \<lparr>conv2d = (\<lambda>x w b. Inr (x * w + b)),
      batch_norm = (\<lambda>c rm rv w b training. Inr (c + 1)),
      relu = (\<lambda>v. Inr (max 0 v)),
      relu_inplace = (\<lambda>v. Inr (max 0 v)),
      hardtanh = (\<lambda>v. Inr (max (- 1) (min 1 v))),
      hardtanh_inplace = (\<lambda>v. Inr (max (- 1) (min 1 v))),
      relu6 = (\<lambda>v. Inr (max 0 (min 6 v))),
      ReLU6_inplace = (\<lambda>v. Inr (max 0 (min 6 v))),
      conv2d_example_inputs = (),
      conv2d_bn_example_inputs = (),
      get_aten_graph_module =
        (\<lambda>pattern example_inputs w.
           (if w = 0 then Inl ''tracing failed'' else Inr w, Suc w)),
      eliminate_dead_code = (\<lambda>g w. (Inr (), w)),
      recompile = (\<lambda>g w. (Inr (), w)),
      SubgraphMatcherWithNameNodeMap_init = (\<lambda>g ignore_literals w. (Inr g, w))\<rparr>"

text \<open>The process after \<open>_generate_conv2d_relu_pattern_matcher\<close> has run once from
  \<open>initial_process 1\<close>.\<close>

definition example_process :: "(nat, nat) process" where
  "example_process =
     \<lparr>world = 2, matchers = [1], lru_cache = (\<lambda>k. None)(Conv2dRelu := Some 0)\<rparr>"

text \<open>The name map of the template with batch norm and \<open>relu\<close>, run on \<open>x = 2\<close>,
  \<open>conv_weight = 3\<close>, \<open>conv_bias = - 10\<close> in the example framework.\<close>

definition example_names :: "string \<rightharpoonup> int" where
  "example_names =
     [''input'' \<mapsto> 2, ''conv'' \<mapsto> - 4, ''conv_weight'' \<mapsto> 3, ''conv_bias'' \<mapsto> - 10,
      ''bn'' \<mapsto> - 3, ''unary'' \<mapsto> 0, ''output'' \<mapsto> 0]"

text \<open>A convolution that raises on every input.\<close>

definition example_failing_conv :: "int \<Rightarrow> int \<Rightarrow> int \<Rightarrow> string + int" where
  "example_failing_conv x w b = Inl ''shape mismatch''"

section \<open>Properties\<close>

subsection \<open>The size-extraction predicate\<close>

text \<open>
  C1 (as amended). \<open>_node_only_used_for_sym_size\<close> returns true if and only if the node
  is itself a size-extraction node, or every user of the node is either not a member of
  the partition node list or is a size-extraction node.
\<close>

theorem node_only_used_for_sym_size_iff:
  "node_only_used_for_sym_size is_sym_size_node users node partition_nodes \<longleftrightarrow>
     is_sym_size_node node \<or>
     (\<forall>user \<in> set (users node). user \<notin> set partition_nodes \<or> is_sym_size_node user)"
  by (simp add: node_only_used_for_sym_size_def list_all_iff)

theorem node_only_used_for_sym_size_iff_witness:
  "node_only_used_for_sym_size example_is_sym_size_node example_users 2 [3, 4] = False \<and>
   \<not> example_is_sym_size_node 2 \<and> 3 \<in> set (example_users 2) \<and> 3 \<in> set [3, 4 :: nat] \<and>
   \<not> example_is_sym_size_node 3"
  using node_only_used_for_sym_size_iff
          [of example_is_sym_size_node example_users 2 "[3, 4]"]
  by (simp add: example_is_sym_size_node_def example_users_def)

text \<open>
  C1 (as stated) fails on a node that is itself a size-extraction node: node 0 has the
  user 1, which is in the partition and is not a size-extraction node, and the function
  returns true.
\<close>

theorem node_only_used_for_sym_size_counterexample:
  "node_only_used_for_sym_size example_is_sym_size_node example_users 0 [1] \<and>
   1 \<in> set (example_users 0) \<and> 1 \<in> set [1 :: nat] \<and> \<not> example_is_sym_size_node 1"
  by (simp add: node_only_used_for_sym_size_def example_is_sym_size_node_def
        example_users_def)

subsection \<open>Annotating a node\<close>

lemmas annot_defs = annotate_input_qspec_map_def annotate_output_qspec_def
  meta_get_quantization_annotation_def new_QuantizationAnnotation_def
  annotation_of_def output_qspec_of_def input_qspec_map_of_def input_qspec_dict_of_def

lemma wf_example_store: "wf_store example_store"
  by (simp add: wf_store_def example_store_def annotation_of_def)

lemma example_store_node5:
  "annotation_of example_store 5 = Some 0"
  "output_qspec_of example_store 5 = Some ''int8''"
  "input_qspec_map_of example_store 5 = Some [7 \<mapsto> ''uint8'']"
  "entries_before example_class example_store 5 = [7 \<mapsto> ''uint8'']"
  by (simp_all add: annotation_of_def output_qspec_of_def input_qspec_map_of_def
        entries_before_def example_store_def)

lemma example_store_node9:
  "annotation_of example_store 9 = None"
  "next_annotation example_store = 1"
  by (simp_all add: annotation_of_def example_store_def)

lemma example_class_defaults:
  "default_input_qspec_map example_class = Some Map.empty"
  "default_output_qspec example_class = ''unset''"
  by (simp_all add: example_class_def)

text \<open>Both functions keep the store well formed.\<close>

lemma wf_annotate_input:
  "wf_store s \<Longrightarrow> wf_store (annotate_input_qspec_map cls n i q s)"
  unfolding wf_store_def annot_defs
  by (auto simp: Let_def less_Suc_eq split: option.splits prod.splits if_splits)

lemma wf_annotate_output:
  "wf_store s \<Longrightarrow> wf_store (annotate_output_qspec cls n q s)"
  unfolding wf_store_def annot_defs
  by (auto simp: Let_def less_Suc_eq split: option.splits prod.splits if_splits)

text \<open>One call adds the entry to the entries the node had.\<close>

lemma view_annotate_input:
  "wf_store s \<Longrightarrow>
   input_qspec_map_of (annotate_input_qspec_map cls n i q s) n
     = Some ((entries_before cls s n)(i \<mapsto> q))"
  unfolding wf_store_def annot_defs entries_before_def
  by (auto simp: Let_def split: option.splits prod.splits if_splits)

lemma entries_before_view:
  "input_qspec_map_of s n = Some m \<Longrightarrow> entries_before cls s n = m"
  by (auto simp: entries_before_def input_qspec_map_of_def split: option.splits)

lemma view_annotate_input_twice:
  assumes "wf_store s"
  shows "input_qspec_map_of
           (annotate_input_qspec_map cls n i2 q2 (annotate_input_qspec_map cls n i1 q1 s)) n
         = Some ((entries_before cls s n)(i1 \<mapsto> q1, i2 \<mapsto> q2))"
proof -
  let ?s1 = "annotate_input_qspec_map cls n i1 q1 s"
  have "wf_store ?s1" using assms by (rule wf_annotate_input)
  moreover have "entries_before cls ?s1 n = (entries_before cls s n)(i1 \<mapsto> q1)"
    using view_annotate_input [OF assms] by (rule entries_before_view)
  ultimately show ?thesis by (simp add: view_annotate_input)
qed

text \<open>
  C2. For distinct input nodes \<open>i1\<close> and \<open>i2\<close>, calling
  \<open>_annotate_input_qspec_map(n, i1, q1)\<close> and then
  \<open>_annotate_input_qspec_map(n, i2, q2)\<close> leaves \<open>n\<close>'s annotation with an
  \<open>input_qspec_map\<close> that maps \<open>i1\<close> to \<open>q1\<close> and \<open>i2\<close> to \<open>q2\<close>.
\<close>

theorem annotate_input_qspec_map_accumulates:
  assumes "wf_store s" and "i1 \<noteq> i2"
  shows "\<exists>m. input_qspec_map_of
           (annotate_input_qspec_map cls n i2 q2 (annotate_input_qspec_map cls n i1 q1 s)) n
            = Some m \<and> m i1 = Some q1 \<and> m i2 = Some q2"
  using assms by (simp add: view_annotate_input_twice)

theorem annotate_input_qspec_map_accumulates_witness:
  "wf_store example_store \<and> (1::nat) \<noteq> 2 \<and>
   (\<exists>m. input_qspec_map_of
           (annotate_input_qspec_map example_class 5 2 ''b''
              (annotate_input_qspec_map example_class 5 1 ''a'' example_store)) 5
            = Some m \<and> m 1 = Some ''a'' \<and> m 2 = Some ''b'')"
  using annotate_input_qspec_map_accumulates
          [OF wf_example_store, of 1 2 example_class 5 "''b''" "''a''"]
  by (simp add: wf_example_store)

text \<open>
  C10. Calling \<open>_annotate_input_qspec_map(n, i, q1)\<close> and then
  \<open>_annotate_input_qspec_map(n, i, q2)\<close> with the same input node leaves the entry of
  \<open>i\<close> mapped to \<open>q2\<close>: the dictionary is the one the node started from with the single
  entry \<open>i \<mapsto> q2\<close> written into it, and nothing of \<open>q1\<close> remains.
\<close>

theorem annotate_input_qspec_map_last_write_wins:
  assumes "wf_store s"
  shows "\<exists>m. input_qspec_map_of
           (annotate_input_qspec_map cls n i q2 (annotate_input_qspec_map cls n i q1 s)) n
            = Some m \<and> m i = Some q2 \<and> m = (entries_before cls s n)(i \<mapsto> q2)"
  using assms by (simp add: view_annotate_input_twice)

theorem annotate_input_qspec_map_last_write_wins_witness:
  "wf_store example_store \<and>
   (\<exists>m. input_qspec_map_of
           (annotate_input_qspec_map example_class 5 1 ''b''
              (annotate_input_qspec_map example_class 5 1 ''a'' example_store)) 5
            = Some m \<and> m 1 = Some ''b'' \<and> m = [7 \<mapsto> ''uint8'', 1 \<mapsto> ''b''])"
  using annotate_input_qspec_map_last_write_wins
          [OF wf_example_store, of example_class 5 1 "''b''" "''a''"]
  by (simp add: wf_example_store example_store_node5)

text \<open>
  C3. Calling \<open>_annotate_output_qspec(n, q1)\<close> and then \<open>_annotate_output_qspec(n, q2)\<close>
  leaves \<open>n\<close>'s annotation with \<open>output_qspec\<close> equal to \<open>q2\<close>, whatever the store held
  for \<open>n\<close> before.
\<close>

theorem annotate_output_qspec_overwrites:
  "output_qspec_of
     (annotate_output_qspec cls n q2 (annotate_output_qspec cls n q1 s)) n = Some q2"
  unfolding annot_defs
  by (auto simp: Let_def split: option.splits prod.splits)

text \<open>
  C6. For a node \<open>n\<close> without a \<open>"quantization_annotation"\<close> entry, either function
  stores a new annotation record under that key of \<open>n\<close>'s metadata: the record is at an
  address no node referred to before, and it is a newly constructed record with the one
  field set (the entry \<open>i \<mapsto> q\<close> written into its dictionary, or \<open>output_qspec = q\<close>);
  the other field is as the constructor left it.
\<close>

theorem annotate_creates_annotation:
  assumes "wf_store s" and "annotation_of s n = None"
  shows "(\<forall>m. annotation_of s m \<noteq> Some (next_annotation s)) \<and>
         annotation_of (annotate_input_qspec_map cls n i q s) n = Some (next_annotation s) \<and>
         input_qspec_map_of (annotate_input_qspec_map cls n i q s) n
           = Some ((case default_input_qspec_map cls of None \<Rightarrow> Map.empty | Some m \<Rightarrow> m)
                     (i \<mapsto> q)) \<and>
         output_qspec_of (annotate_input_qspec_map cls n i q s) n
           = Some (default_output_qspec cls) \<and>
         annotation_of (annotate_output_qspec cls n q s) n = Some (next_annotation s) \<and>
         output_qspec_of (annotate_output_qspec cls n q s) n = Some q \<and>
         input_qspec_map_of (annotate_output_qspec cls n q s) n = default_input_qspec_map cls"
  using assms unfolding wf_store_def annot_defs
  by (auto simp: Let_def split: option.splits prod.splits)

theorem annotate_creates_annotation_witness:
  "wf_store example_store \<and> annotation_of example_store 9 = None \<and>
   annotation_of (annotate_input_qspec_map example_class 9 1 ''a'' example_store) 9 = Some 1 \<and>
   input_qspec_map_of (annotate_input_qspec_map example_class 9 1 ''a'' example_store) 9
     = Some [1 \<mapsto> ''a''] \<and>
   output_qspec_of (annotate_input_qspec_map example_class 9 1 ''a'' example_store) 9
     = Some ''unset'' \<and>
   annotation_of (annotate_output_qspec example_class 9 ''a'' example_store) 9 = Some 1 \<and>
   output_qspec_of (annotate_output_qspec example_class 9 ''a'' example_store) 9 = Some ''a'' \<and>
   input_qspec_map_of (annotate_output_qspec example_class 9 ''a'' example_store) 9
     = Some Map.empty"
  using annotate_creates_annotation
          [OF wf_example_store example_store_node9(1), of example_class 1 "''a''"]
  by (simp add: wf_example_store example_store_node9 example_class_defaults)

subsection \<open>What annotating a node leaves alone\<close>

lemma input_keeps_output:
  "wf_store s \<Longrightarrow>
   output_qspec_of (annotate_input_qspec_map cls n i q s) n =
     (case annotation_of s n of
        None \<Rightarrow> Some (default_output_qspec cls)
      | Some a \<Rightarrow> output_qspec_of s n)"
  unfolding wf_store_def annot_defs
  by (auto simp: Let_def split: option.splits prod.splits)

lemma output_keeps_input:
  "wf_store s \<Longrightarrow>
   input_qspec_map_of (annotate_output_qspec cls n q s) n =
     (case annotation_of s n of
        None \<Rightarrow> default_input_qspec_map cls
      | Some a \<Rightarrow> input_qspec_map_of s n)"
  unfolding wf_store_def annot_defs
  by (auto simp: Let_def split: option.splits prod.splits)

lemma input_frame_meta:
  "m \<noteq> n \<Longrightarrow> meta (annotate_input_qspec_map cls n i q s) m = meta s m"
  unfolding annot_defs
  by (auto simp: Let_def split: option.splits prod.splits)

lemma output_frame_meta:
  "m \<noteq> n \<Longrightarrow> meta (annotate_output_qspec cls n q s) m = meta s m"
  unfolding annot_defs
  by (auto simp: Let_def split: option.splits prod.splits)

lemma input_frame_annotations:
  "wf_store s \<Longrightarrow> a < next_annotation s \<Longrightarrow>
   annotation_of (annotate_input_qspec_map cls n i q s) n \<noteq> Some a \<Longrightarrow>
   annotations (annotate_input_qspec_map cls n i q s) a = annotations s a"
  unfolding wf_store_def annot_defs
  by (auto simp: Let_def split: option.splits prod.splits)

lemma output_frame_annotations:
  "wf_store s \<Longrightarrow> a < next_annotation s \<Longrightarrow>
   annotation_of (annotate_output_qspec cls n q s) n \<noteq> Some a \<Longrightarrow>
   annotations (annotate_output_qspec cls n q s) a = annotations s a"
  unfolding wf_store_def annot_defs
  by (auto simp: Let_def split: option.splits prod.splits)

lemma input_frame_dicts:
  "wf_store s \<Longrightarrow> d < next_dict s \<Longrightarrow>
   input_qspec_dict_of (annotate_input_qspec_map cls n i q s) n \<noteq> Some d \<Longrightarrow>
   dicts (annotate_input_qspec_map cls n i q s) d = dicts s d"
  unfolding wf_store_def annot_defs
  by (auto simp: Let_def split: option.splits prod.splits)

lemma output_frame_dicts:
  "d < next_dict s \<Longrightarrow> dicts (annotate_output_qspec cls n q s) d = dicts s d"
  unfolding annot_defs
  by (auto simp: Let_def split: option.splits prod.splits)

lemma input_other_output:
  "wf_store s \<Longrightarrow> m \<noteq> n \<Longrightarrow>
   output_qspec_of (annotate_input_qspec_map cls n i q s) m = output_qspec_of s m"
  unfolding wf_store_def annot_defs
  by (auto simp: Let_def split: option.splits prod.splits)

lemma output_other_input:
  "wf_store s \<Longrightarrow> m \<noteq> n \<Longrightarrow>
   input_qspec_map_of (annotate_output_qspec cls n q s) m = input_qspec_map_of s m"
  unfolding wf_store_def annot_defs
  by (auto simp: Let_def split: option.splits prod.splits)

lemma output_other_output:
  "wf_store s \<Longrightarrow> m \<noteq> n \<Longrightarrow>
   annotation_of s m \<noteq> annotation_of (annotate_output_qspec cls n q s) n \<Longrightarrow>
   output_qspec_of (annotate_output_qspec cls n q s) m = output_qspec_of s m"
  unfolding wf_store_def annot_defs
  by (auto simp: Let_def split: option.splits prod.splits)

lemma input_other_input:
  "wf_store s \<Longrightarrow> m \<noteq> n \<Longrightarrow>
   annotation_of s m \<noteq> annotation_of (annotate_input_qspec_map cls n i q s) n \<Longrightarrow>
   input_qspec_dict_of s m \<noteq> input_qspec_dict_of (annotate_input_qspec_map cls n i q s) n \<Longrightarrow>
   input_qspec_map_of (annotate_input_qspec_map cls n i q s) m = input_qspec_map_of s m"
  unfolding wf_store_def annot_defs
  by (auto simp: Let_def split: option.splits prod.splits)

text \<open>
  Records are shared by reference: where two nodes hold the same annotation record, a
  spec written through one node is read through the other.
\<close>

lemma shared_annotation_example:
  "annotation_of example_store 6 = annotation_of example_store 5 \<and>
   output_qspec_of example_store 6 = Some ''int8'' \<and>
   output_qspec_of (annotate_output_qspec example_class 5 ''x'' example_store) 6 = Some ''x''"
  by (simp add: annot_defs example_store_def example_class_def)

text \<open>
  C9. \<open>_annotate_input_qspec_map(n, i, q)\<close> leaves the \<open>output_qspec\<close> of \<open>n\<close>'s
  annotation as it was (as the constructor set it, when \<open>n\<close> had no annotation), and
  \<open>_annotate_output_qspec(n, q)\<close> leaves the \<open>input_qspec_map\<close> of \<open>n\<close>'s annotation
  with all its entries as it was. Each operation changes only what belongs to \<open>n\<close>: the
  metadata dictionary of every other node, every existing annotation record other than
  the one \<open>n\<close> holds afterwards, and every existing dictionary other than the one that
  record points to are unchanged. Hence, for another node \<open>m\<close>, the field the operation
  does not write reads the same afterwards, and so does the field it writes unless \<open>m\<close>
  holds the very record (or dictionary) that \<open>n\<close> holds.
\<close>

theorem annotate_frame:
  assumes "wf_store s"
  shows
    "output_qspec_of (annotate_input_qspec_map cls n i q s) n =
       (case annotation_of s n of
          None \<Rightarrow> Some (default_output_qspec cls)
        | Some a \<Rightarrow> output_qspec_of s n) \<and>
     input_qspec_map_of (annotate_output_qspec cls n q s) n =
       (case annotation_of s n of
          None \<Rightarrow> default_input_qspec_map cls
        | Some a \<Rightarrow> input_qspec_map_of s n) \<and>
     (\<forall>m. m \<noteq> n \<longrightarrow>
        meta (annotate_input_qspec_map cls n i q s) m = meta s m \<and>
        meta (annotate_output_qspec cls n q s) m = meta s m) \<and>
     (\<forall>a. a < next_annotation s \<longrightarrow>
        annotation_of (annotate_input_qspec_map cls n i q s) n \<noteq> Some a \<longrightarrow>
        annotations (annotate_input_qspec_map cls n i q s) a = annotations s a) \<and>
     (\<forall>a. a < next_annotation s \<longrightarrow>
        annotation_of (annotate_output_qspec cls n q s) n \<noteq> Some a \<longrightarrow>
        annotations (annotate_output_qspec cls n q s) a = annotations s a) \<and>
     (\<forall>d. d < next_dict s \<longrightarrow>
        input_qspec_dict_of (annotate_input_qspec_map cls n i q s) n \<noteq> Some d \<longrightarrow>
        dicts (annotate_input_qspec_map cls n i q s) d = dicts s d) \<and>
     (\<forall>d. d < next_dict s \<longrightarrow> dicts (annotate_output_qspec cls n q s) d = dicts s d) \<and>
     (\<forall>m. m \<noteq> n \<longrightarrow>
        output_qspec_of (annotate_input_qspec_map cls n i q s) m = output_qspec_of s m \<and>
        input_qspec_map_of (annotate_output_qspec cls n q s) m = input_qspec_map_of s m) \<and>
     (\<forall>m. m \<noteq> n \<longrightarrow>
        annotation_of s m \<noteq> annotation_of (annotate_output_qspec cls n q s) n \<longrightarrow>
        output_qspec_of (annotate_output_qspec cls n q s) m = output_qspec_of s m) \<and>
     (\<forall>m. m \<noteq> n \<longrightarrow>
        annotation_of s m \<noteq> annotation_of (annotate_input_qspec_map cls n i q s) n \<longrightarrow>
        input_qspec_dict_of s m
          \<noteq> input_qspec_dict_of (annotate_input_qspec_map cls n i q s) n \<longrightarrow>
        input_qspec_map_of (annotate_input_qspec_map cls n i q s) m = input_qspec_map_of s m)"
  using assms
  by (intro conjI allI impI)
     (simp_all only: input_keeps_output output_keeps_input input_frame_meta output_frame_meta
        input_frame_annotations output_frame_annotations input_frame_dicts output_frame_dicts
        input_other_output output_other_input output_other_output input_other_input
        not_False_eq_True)

theorem annotate_frame_witness:
  "wf_store example_store \<and>
   output_qspec_of (annotate_input_qspec_map example_class 5 1 ''a'' example_store) 5
     = Some ''int8'' \<and>
   input_qspec_map_of (annotate_output_qspec example_class 5 ''a'' example_store) 5
     = Some [7 \<mapsto> ''uint8''] \<and>
   (9::nat) \<noteq> 5 \<and>
   meta (annotate_input_qspec_map example_class 5 1 ''a'' example_store) 9
     = meta example_store 9 \<and>
   meta (annotate_output_qspec example_class 5 ''a'' example_store) 9 = meta example_store 9"
  using annotate_frame [OF wf_example_store, of example_class 5 1 "''a''"]
  by (simp add: wf_example_store example_store_node5)

subsection \<open>The conv-unary template\<close>

text \<open>
  C7. The template returned by \<open>_get_conv_unary_pattern\<close> applies \<open>conv_fn\<close> to
  \<open>(x, conv_weight, conv_bias)\<close>, then batch norm to the result if and only if
  \<open>has_bn\<close>, then \<open>unary_fn\<close> to that result if and only if \<open>unary_fn\<close> is not
  \<open>None\<close>, and returns the final value with a name map whose keys are exactly
  \<open>input\<close>, \<open>conv\<close>, \<open>conv_weight\<close>, \<open>conv_bias\<close>, \<open>bn\<close>, \<open>unary\<close>, \<open>output\<close>.
  The template returns exactly when each operator it applies returns.
\<close>

theorem conv_unary_result:
  "(get_conv_unary_pattern F_batch_norm conv_fn has_bn unary_fn
        x conv_weight conv_bias bn_weight bn_bias bn_rm bn_rv = Inr (out, names) \<longleftrightarrow>
      (\<exists>conv bn.
         conv_fn x conv_weight conv_bias = Inr conv \<and>
         (if has_bn then F_batch_norm conv bn_rm bn_rv bn_weight bn_bias True = Inr bn
          else bn = conv) \<and>
         (case unary_fn of None \<Rightarrow> out = bn | Some f \<Rightarrow> f bn = Inr out) \<and>
         names = [''input'' \<mapsto> x, ''conv'' \<mapsto> conv, ''conv_weight'' \<mapsto> conv_weight,
                  ''conv_bias'' \<mapsto> conv_bias, ''bn'' \<mapsto> bn, ''unary'' \<mapsto> out,
                  ''output'' \<mapsto> out])) \<and>
   (get_conv_unary_pattern F_batch_norm conv_fn has_bn unary_fn
        x conv_weight conv_bias bn_weight bn_bias bn_rm bn_rv = Inr (out, names) \<longrightarrow>
      dom names = {''input'', ''conv'', ''conv_weight'', ''conv_bias'', ''bn'', ''unary'',
                   ''output''})"
  unfolding get_conv_unary_pattern_def conv_unary_def
  by (auto simp: Let_def split: sum.splits option.splits if_splits)

lemma example_torch_operators:
  "conv2d example_torch x w b = Inr (x * w + b)"
  "batch_norm example_torch c rm rv bw bb training = Inr (c + 1)"
  "relu example_torch v = Inr (max 0 v)"
  by (simp_all add: example_torch_def)

theorem conv_unary_result_witness:
  "get_conv_unary_pattern (batch_norm example_torch) (conv2d example_torch) True
       (Some (relu example_torch)) 2 3 (- 10) None None None None
     = Inr (0, example_names) \<and>
   dom example_names
     = {''input'', ''conv'', ''conv_weight'', ''conv_bias'', ''bn'', ''unary'', ''output''}"
proof -
  have run: "get_conv_unary_pattern (batch_norm example_torch) (conv2d example_torch) True
       (Some (relu example_torch)) 2 3 (- 10) None None None None
     = Inr (0, example_names)"
    by (simp add: get_conv_unary_pattern_def conv_unary_def example_torch_operators
          example_names_def)
  have "dom example_names
     = {''input'', ''conv'', ''conv_weight'', ''conv_bias'', ''bn'', ''unary'', ''output''}"
    by (rule conv_unary_result [THEN conjunct2, THEN mp, OF run])
  with run show ?thesis by (rule conjI)
qed

subsection \<open>The memoised accessors\<close>

lemmas generate_defs =
  generate_conv2d_pattern_matcher_def generate_conv2d_bn_pattern_matcher_def
  generate_conv2d_relu_pattern_matcher_def generate_conv2d_inplace_relu_pattern_matcher_def
  generate_conv2d_hardtanh_pattern_matcher_def
  generate_conv2d_inplace_hardtanh_pattern_matcher_def
  generate_conv2d_relu6_pattern_matcher_def
  generate_conv2d_inplace_relu6_pattern_matcher_def

text \<open>The helper never touches the cache; when it returns, its result is the position of
  the matcher it appended.\<close>

lemma helper_effect:
  "generate_pattern_matcher_helper t p ex s = (r, s') \<Longrightarrow>
   lru_cache s' = lru_cache s \<and>
   (case r of
      Inl e \<Rightarrow> matchers s' = matchers s
    | Inr a \<Rightarrow> a = length (matchers s) \<and> length (matchers s') = Suc (length (matchers s)))"
  unfolding generate_pattern_matcher_helper_def
  by (auto split: prod.splits sum.splits)

text \<open>Every accessor is the cache wrapper around the helper, at some template and some
  example inputs.\<close>

lemma invoke_lru_cached:
  "\<exists>p ex. invoke t k = lru_cached k (generate_pattern_matcher_helper t p ex)"
  by (cases k) (auto simp: generate_defs)

lemma invoke_hit:
  "lru_cache s k = Some a \<Longrightarrow> invoke t k s = (Inr a, s)"
  using invoke_lru_cached [of t k] by (auto simp: lru_cached_def)

lemma invoke_fills:
  assumes "invoke t k s = (Inr a, s1)"
  shows "lru_cache s1 k = Some a"
proof -
  obtain p ex where "invoke t k = lru_cached k (generate_pattern_matcher_helper t p ex)"
    using invoke_lru_cached [of t k] by (elim exE)
  with assms show ?thesis
    by (auto simp: lru_cached_def split: option.splits prod.splits sum.splits)
qed

lemma invoke_keeps:
  assumes "lru_cache s k = Some a"
  shows "lru_cache (snd (invoke t k' s)) k = Some a"
proof -
  obtain p ex where eq: "invoke t k' = lru_cached k' (generate_pattern_matcher_helper t p ex)"
    using invoke_lru_cached [of t k'] by (elim exE)
  show ?thesis
  proof (cases "lru_cache s k'")
    case (Some b)
    then show ?thesis using assms by (simp add: eq lru_cached_def)
  next
    case None
    then have "k' \<noteq> k" using assms by auto
    obtain r s' where h: "generate_pattern_matcher_helper t p ex s = (r, s')"
      by (cases "generate_pattern_matcher_helper t p ex s")
    from helper_effect [OF h] have "lru_cache s' = lru_cache s" by simp
    with None \<open>k' \<noteq> k\<close> assms h show ?thesis
      by (simp add: eq lru_cached_def split: sum.splits)
  qed
qed

lemma invoke_all_keeps:
  "lru_cache s k = Some a \<Longrightarrow> lru_cache (invoke_all t ks s) k = Some a"
  by (induction ks arbitrary: s) (simp_all add: invoke_keeps)

lemma cache_ok_initial: "cache_ok (initial_process w)"
  by (simp add: cache_ok_def initial_process_def)

lemma cache_ok_invoke:
  assumes "cache_ok s"
  shows "cache_ok (snd (invoke t k s))"
proof -
  obtain p ex where eq: "invoke t k = lru_cached k (generate_pattern_matcher_helper t p ex)"
    using invoke_lru_cached [of t k] by (elim exE)
  obtain r s' where h: "generate_pattern_matcher_helper t p ex s = (r, s')"
    by (cases "generate_pattern_matcher_helper t p ex s")
  from helper_effect [OF h] assms h show ?thesis
    unfolding eq lru_cached_def cache_ok_def
    by (auto split: option.splits sum.splits) (metis less_Suc_eq less_irrefl | metis less_Suc_eq)+
qed

lemma cache_ok_invoke_all:
  "cache_ok s \<Longrightarrow> cache_ok (invoke_all t ks s)"
  by (induction ks arbitrary: s) (simp_all add: cache_ok_invoke)

lemma invoke_distinct:
  assumes "cache_ok s" and "lru_cache s k1 = Some a1" and "k1 \<noteq> k2"
    and "invoke t k2 s = (Inr a2, s')"
  shows "a1 \<noteq> a2"
proof -
  obtain p ex where eq: "invoke t k2 = lru_cached k2 (generate_pattern_matcher_helper t p ex)"
    using invoke_lru_cached [of t k2] by (elim exE)
  obtain r s1 where h: "generate_pattern_matcher_helper t p ex s = (r, s1)"
    by (cases "generate_pattern_matcher_helper t p ex s")
  from helper_effect [OF h] assms h show ?thesis
    unfolding eq lru_cached_def cache_ok_def
    by (auto split: option.splits sum.splits)
qed

lemma example_torch_simps:
  "get_aten_graph_module example_torch p ex w =
     (if w = 0 then Inl ''tracing failed'' else Inr w, Suc w)"
  "eliminate_dead_code example_torch g w = (Inr (), w)"
  "recompile example_torch g w = (Inr (), w)"
  "SubgraphMatcherWithNameNodeMap_init example_torch g b w = (Inr g, w)"
  by (simp_all add: example_torch_def)

lemma example_first_call:
  "invoke example_torch Conv2dRelu (initial_process (Suc 0)) = (Inr 0, example_process)"
  by (simp add: generate_defs lru_cached_def generate_pattern_matcher_helper_def
        example_torch_simps initial_process_def example_process_def)

lemma example_second_call:
  "invoke example_torch Conv2dHardtanh example_process =
     (Inr 1, \<lparr>world = 3, matchers = [1, 2],
               lru_cache = (\<lambda>k. None)(Conv2dRelu := Some 0, Conv2dHardtanh := Some 1)\<rparr>)"
  by (simp add: generate_defs lru_cached_def generate_pattern_matcher_helper_def
        example_torch_simps example_process_def)

text \<open>
  C4 (as amended). For each cached pattern-matcher accessor, once an invocation has
  returned an object, every later invocation, whatever accessors were called in between,
  returns the identical object and leaves the process state as it is: the matcher is not
  constructed again and nothing removes it from the cache.
\<close>

theorem cached_after_first_success:
  assumes "invoke t k s = (Inr a, s1)"
  shows "invoke t k (invoke_all t ks s1) = (Inr a, invoke_all t ks s1)"
  by (rule invoke_hit, rule invoke_all_keeps, rule invoke_fills [OF assms])

theorem cached_after_first_success_witness:
  "invoke example_torch Conv2dRelu (initial_process 1) = (Inr 0, example_process) \<and>
   invoke example_torch Conv2dRelu
       (invoke_all example_torch [Conv2dHardtanh, Conv2dRelu] example_process)
     = (Inr 0, invoke_all example_torch [Conv2dHardtanh, Conv2dRelu] example_process)"
  using cached_after_first_success
          [of example_torch Conv2dRelu "initial_process 1" 0 example_process
              "[Conv2dHardtanh, Conv2dRelu]"]
  by (simp only: example_first_call One_nat_def simp_thms)

text \<open>
  C4 (as stated) fails when the first invocation raises: nothing is cached, so the second
  invocation runs the construction again. Here the tracer fails on its first call; the
  first invocation raises, the second one traces again (the framework state advances from
  1 to 2) and returns an object the first invocation did not return.
\<close>

theorem construction_repeated_after_failure_counterexample:
  "fst (invoke example_torch Conv2d (initial_process 0)) = Inl ''tracing failed'' \<and>
   world (snd (invoke example_torch Conv2d (initial_process 0))) = 1 \<and>
   fst (invoke example_torch Conv2d (snd (invoke example_torch Conv2d (initial_process 0))))
     = Inr 0 \<and>
   world (snd (invoke example_torch Conv2d
                 (snd (invoke example_torch Conv2d (initial_process 0))))) = 2"
  by (simp add: generate_defs lru_cached_def generate_pattern_matcher_helper_def
        example_torch_simps initial_process_def)

text \<open>
  C5. In a process started with empty caches, the objects returned by two distinct cached
  pattern-matcher accessors are distinct, whatever accessors were called before and in
  between.
\<close>

theorem distinct_accessors_distinct_matchers:
  assumes "invoke t k1 (invoke_all t ks0 (initial_process w)) = (Inr a1, s1)"
    and "invoke t k2 (invoke_all t ks1 s1) = (Inr a2, s2)"
    and "k1 \<noteq> k2"
  shows "a1 \<noteq> a2"
proof -
  have "cache_ok (snd (invoke t k1 (invoke_all t ks0 (initial_process w))))"
    by (intro cache_ok_invoke cache_ok_invoke_all cache_ok_initial)
  then have "cache_ok s1" using assms(1) by simp
  then have ok: "cache_ok (invoke_all t ks1 s1)" by (rule cache_ok_invoke_all)
  have "lru_cache s1 k1 = Some a1" using assms(1) by (rule invoke_fills)
  then have "lru_cache (invoke_all t ks1 s1) k1 = Some a1" by (rule invoke_all_keeps)
  with ok show ?thesis using assms(3) assms(2) by (rule invoke_distinct)
qed

theorem distinct_accessors_distinct_matchers_witness:
  "invoke example_torch Conv2dRelu (invoke_all example_torch [] (initial_process 1))
     = (Inr 0, example_process) \<and>
   fst (invoke example_torch Conv2dHardtanh (invoke_all example_torch [] example_process))
     = Inr 1 \<and>
   Conv2dRelu \<noteq> Conv2dHardtanh \<and> (0::nat) \<noteq> 1"
proof -
  have first: "invoke example_torch Conv2dRelu (invoke_all example_torch [] (initial_process 1))
     = (Inr 0, example_process)"
    by (simp only: invoke_all.simps One_nat_def example_first_call)
  have second: "invoke example_torch Conv2dHardtanh (invoke_all example_torch [] example_process)
     = (Inr 1, \<lparr>world = 3, matchers = [1, 2],
               lru_cache = (\<lambda>k. None)(Conv2dRelu := Some 0, Conv2dHardtanh := Some 1)\<rparr>)"
    by (simp only: invoke_all.simps example_second_call)
  have "(0::nat) \<noteq> 1"
    by (rule distinct_accessors_distinct_matchers [OF first second]) simp
  then show ?thesis unfolding first second by simp
qed

subsection \<open>Failures of the framework\<close>

text \<open>The helper returns the error of the first framework call that fails.\<close>

lemma helper_propagates:
  "(get_aten_graph_module t p ex (world s) = (Inl e, w1) \<longrightarrow>
      generate_pattern_matcher_helper t p ex s = (Inl e, s\<lparr>world := w1\<rparr>)) \<and>
   (get_aten_graph_module t p ex (world s) = (Inr g, w1) \<longrightarrow>
    eliminate_dead_code t g w1 = (Inl e, w2) \<longrightarrow>
      generate_pattern_matcher_helper t p ex s = (Inl e, s\<lparr>world := w2\<rparr>)) \<and>
   (get_aten_graph_module t p ex (world s) = (Inr g, w1) \<longrightarrow>
    eliminate_dead_code t g w1 = (Inr u2, w2) \<longrightarrow>
    recompile t g w2 = (Inl e, w3) \<longrightarrow>
      generate_pattern_matcher_helper t p ex s = (Inl e, s\<lparr>world := w3\<rparr>)) \<and>
   (get_aten_graph_module t p ex (world s) = (Inr g, w1) \<longrightarrow>
    eliminate_dead_code t g w1 = (Inr u2, w2) \<longrightarrow>
    recompile t g w2 = (Inr u3, w3) \<longrightarrow>
    SubgraphMatcherWithNameNodeMap_init t g True w3 = (Inl e, w4) \<longrightarrow>
      generate_pattern_matcher_helper t p ex s = (Inl e, s\<lparr>world := w4\<rparr>))"
  by (simp add: generate_pattern_matcher_helper_def)

lemma lru_cached_propagates:
  "lru_cache s k = None \<Longrightarrow> user_function s = (Inl e, s1) \<Longrightarrow>
   lru_cached k user_function s = (Inl e, s1)"
  by (simp add: lru_cached_def)

lemma template_propagates:
  "(conv_fn x conv_weight conv_bias = Inl e \<longrightarrow>
      get_conv_unary_pattern F_batch_norm conv_fn has_bn unary_fn
        x conv_weight conv_bias bn_weight bn_bias bn_rm bn_rv = Inl e) \<and>
   (conv_fn x conv_weight conv_bias = Inr conv \<longrightarrow> has_bn \<longrightarrow>
    F_batch_norm conv bn_rm bn_rv bn_weight bn_bias True = Inl e \<longrightarrow>
      get_conv_unary_pattern F_batch_norm conv_fn has_bn unary_fn
        x conv_weight conv_bias bn_weight bn_bias bn_rm bn_rv = Inl e) \<and>
   (conv_fn x conv_weight conv_bias = Inr conv \<longrightarrow>
    (if has_bn then F_batch_norm conv bn_rm bn_rv bn_weight bn_bias True = Inr bn
     else bn = conv) \<longrightarrow>
    unary_fn = Some f \<longrightarrow> f bn = Inl e \<longrightarrow>
      get_conv_unary_pattern F_batch_norm conv_fn has_bn unary_fn
        x conv_weight conv_bias bn_weight bn_bias bn_rm bn_rv = Inl e)"
  by (simp add: get_conv_unary_pattern_def conv_unary_def)

lemma accessors_propagate:
  "(lru_cache s Conv2d = None \<longrightarrow>
    generate_pattern_matcher_helper t
      (get_conv_unary_pattern (batch_norm t) (conv2d t) False None)
      (conv2d_example_inputs t) s = (Inl e, s1) \<longrightarrow>
      generate_conv2d_pattern_matcher t s = (Inl e, s1)) \<and>
   (lru_cache s Conv2dBn = None \<longrightarrow>
    generate_pattern_matcher_helper t
      (get_conv_unary_pattern (batch_norm t) (conv2d t) True None)
      (conv2d_bn_example_inputs t) s = (Inl e, s1) \<longrightarrow>
      generate_conv2d_bn_pattern_matcher t s = (Inl e, s1)) \<and>
   (lru_cache s Conv2dRelu = None \<longrightarrow>
    generate_pattern_matcher_helper t
      (get_conv_unary_pattern (batch_norm t) (conv2d t) False (Some (relu t)))
      (conv2d_example_inputs t) s = (Inl e, s1) \<longrightarrow>
      generate_conv2d_relu_pattern_matcher t s = (Inl e, s1)) \<and>
   (lru_cache s Conv2dInplaceRelu = None \<longrightarrow>
    generate_pattern_matcher_helper t
      (get_conv_unary_pattern (batch_norm t) (conv2d t) False (Some (relu_inplace t)))
      (conv2d_example_inputs t) s = (Inl e, s1) \<longrightarrow>
      generate_conv2d_inplace_relu_pattern_matcher t s = (Inl e, s1)) \<and>
   (lru_cache s Conv2dHardtanh = None \<longrightarrow>
    generate_pattern_matcher_helper t
      (get_conv_unary_pattern (batch_norm t) (conv2d t) False (Some (hardtanh t)))
      (conv2d_example_inputs t) s = (Inl e, s1) \<longrightarrow>
      generate_conv2d_hardtanh_pattern_matcher t s = (Inl e, s1)) \<and>
   (lru_cache s Conv2dInplaceHardtanh = None \<longrightarrow>
    generate_pattern_matcher_helper t
      (get_conv_unary_pattern (batch_norm t) (conv2d t) False (Some (hardtanh_inplace t)))
      (conv2d_example_inputs t) s = (Inl e, s1) \<longrightarrow>
      generate_conv2d_inplace_hardtanh_pattern_matcher t s = (Inl e, s1)) \<and>
   (lru_cache s Conv2dRelu6 = None \<longrightarrow>
    generate_pattern_matcher_helper t
      (get_conv_unary_pattern (batch_norm t) (conv2d t) False (Some (relu6 t)))
      (conv2d_example_inputs t) s = (Inl e, s1) \<longrightarrow>
      generate_conv2d_relu6_pattern_matcher t s = (Inl e, s1)) \<and>
   (lru_cache s Conv2dInplaceRelu6 = None \<longrightarrow>
    generate_pattern_matcher_helper t
      (get_conv_unary_pattern (batch_norm t) (conv2d t) False (Some (ReLU6_inplace t)))
      (conv2d_example_inputs t) s = (Inl e, s1) \<longrightarrow>
      generate_conv2d_inplace_relu6_pattern_matcher t s = (Inl e, s1))"
  by (simp add: generate_defs lru_cached_def)

text \<open>
  C8. No function of the module catches, transforms or suppresses an exception. An error
  raised by the tracer, by \<open>eliminate_dead_code\<close>, by \<open>recompile\<close> or by the matcher's
  initialiser is the error raised by \<open>_generate_pattern_matcher_helper\<close>, whatever the
  template and the example inputs, with the framework state as the failing call left it.
  An error raised by the wrapped function is the error raised by the cache wrapper, and
  each of the eight accessors, when its cache is empty, raises the error the helper raises
  on that accessor's own template and example inputs. An error raised by \<open>conv_fn\<close>, by
  batch norm or by \<open>unary_fn\<close> while the template runs is the error raised by the
  template.
\<close>

theorem failures_propagate:
  "(get_aten_graph_module t p ex (world s) = (Inl e, wa) \<longrightarrow>
      generate_pattern_matcher_helper t p ex s = (Inl e, s\<lparr>world := wa\<rparr>)) \<and>
   (get_aten_graph_module t p ex (world s) = (Inr g, wa) \<longrightarrow>
    eliminate_dead_code t g wa = (Inl e, wb) \<longrightarrow>
      generate_pattern_matcher_helper t p ex s = (Inl e, s\<lparr>world := wb\<rparr>)) \<and>
   (get_aten_graph_module t p ex (world s) = (Inr g, wa) \<longrightarrow>
    eliminate_dead_code t g wa = (Inr ua, wb) \<longrightarrow>
    recompile t g wb = (Inl e, wc) \<longrightarrow>
      generate_pattern_matcher_helper t p ex s = (Inl e, s\<lparr>world := wc\<rparr>)) \<and>
   (get_aten_graph_module t p ex (world s) = (Inr g, wa) \<longrightarrow>
    eliminate_dead_code t g wa = (Inr ua, wb) \<longrightarrow>
    recompile t g wb = (Inr ub, wc) \<longrightarrow>
    SubgraphMatcherWithNameNodeMap_init t g True wc = (Inl e, wd) \<longrightarrow>
      generate_pattern_matcher_helper t p ex s = (Inl e, s\<lparr>world := wd\<rparr>)) \<and>
   (lru_cache s k = None \<longrightarrow> user_function s = (Inl e, s') \<longrightarrow>
      lru_cached k user_function s = (Inl e, s')) \<and>
   (lru_cache s Conv2d = None \<longrightarrow>
    generate_pattern_matcher_helper t
      (get_conv_unary_pattern (batch_norm t) (conv2d t) False None)
      (conv2d_example_inputs t) s = (Inl e, s') \<longrightarrow>
      generate_conv2d_pattern_matcher t s = (Inl e, s')) \<and>
   (lru_cache s Conv2dBn = None \<longrightarrow>
    generate_pattern_matcher_helper t
      (get_conv_unary_pattern (batch_norm t) (conv2d t) True None)
      (conv2d_bn_example_inputs t) s = (Inl e, s') \<longrightarrow>
      generate_conv2d_bn_pattern_matcher t s = (Inl e, s')) \<and>
   (lru_cache s Conv2dRelu = None \<longrightarrow>
    generate_pattern_matcher_helper t
      (get_conv_unary_pattern (batch_norm t) (conv2d t) False (Some (relu t)))
      (conv2d_example_inputs t) s = (Inl e, s') \<longrightarrow>
      generate_conv2d_relu_pattern_matcher t s = (Inl e, s')) \<and>
   (lru_cache s Conv2dInplaceRelu = None \<longrightarrow>
    generate_pattern_matcher_helper t
      (get_conv_unary_pattern (batch_norm t) (conv2d t) False (Some (relu_inplace t)))
      (conv2d_example_inputs t) s = (Inl e, s') \<longrightarrow>
      generate_conv2d_inplace_relu_pattern_matcher t s = (Inl e, s')) \<and>
   (lru_cache s Conv2dHardtanh = None \<longrightarrow>
    generate_pattern_matcher_helper t
      (get_conv_unary_pattern (batch_norm t) (conv2d t) False (Some (hardtanh t)))
      (conv2d_example_inputs t) s = (Inl e, s') \<longrightarrow>
      generate_conv2d_hardtanh_pattern_matcher t s = (Inl e, s')) \<and>
   (lru_cache s Conv2dInplaceHardtanh = None \<longrightarrow>
    generate_pattern_matcher_helper t
      (get_conv_unary_pattern (batch_norm t) (conv2d t) False (Some (hardtanh_inplace t)))
      (conv2d_example_inputs t) s = (Inl e, s') \<longrightarrow>
      generate_conv2d_inplace_hardtanh_pattern_matcher t s = (Inl e, s')) \<and>
   (lru_cache s Conv2dRelu6 = None \<longrightarrow>
    generate_pattern_matcher_helper t
      (get_conv_unary_pattern (batch_norm t) (conv2d t) False (Some (relu6 t)))
      (conv2d_example_inputs t) s = (Inl e, s') \<longrightarrow>
      generate_conv2d_relu6_pattern_matcher t s = (Inl e, s')) \<and>
   (lru_cache s Conv2dInplaceRelu6 = None \<longrightarrow>
    generate_pattern_matcher_helper t
      (get_conv_unary_pattern (batch_norm t) (conv2d t) False (Some (ReLU6_inplace t)))
      (conv2d_example_inputs t) s = (Inl e, s') \<longrightarrow>
      generate_conv2d_inplace_relu6_pattern_matcher t s = (Inl e, s')) \<and>
   (conv_fn x conv_weight conv_bias = Inl e \<longrightarrow>
      get_conv_unary_pattern F_batch_norm conv_fn has_bn unary_fn
        x conv_weight conv_bias bn_weight bn_bias bn_rm bn_rv = Inl e) \<and>
   (conv_fn x conv_weight conv_bias = Inr conv \<longrightarrow> has_bn \<longrightarrow>
    F_batch_norm conv bn_rm bn_rv bn_weight bn_bias True = Inl e \<longrightarrow>
      get_conv_unary_pattern F_batch_norm conv_fn has_bn unary_fn
        x conv_weight conv_bias bn_weight bn_bias bn_rm bn_rv = Inl e) \<and>
   (conv_fn x conv_weight conv_bias = Inr conv \<longrightarrow>
    (if has_bn then F_batch_norm conv bn_rm bn_rv bn_weight bn_bias True = Inr bn
     else bn = conv) \<longrightarrow>
    unary_fn = Some f \<longrightarrow> f bn = Inl e \<longrightarrow>
      get_conv_unary_pattern F_batch_norm conv_fn has_bn unary_fn
        x conv_weight conv_bias bn_weight bn_bias bn_rm bn_rv = Inl e)"
proof -
  note h = helper_propagates [of t p ex s e wa g wb ua wc ub wd]
  have l: "lru_cache s k = None \<longrightarrow> user_function s = (Inl e, s') \<longrightarrow>
      lru_cached k user_function s = (Inl e, s')"
    by (simp add: lru_cached_propagates)
  note a = accessors_propagate [of s t e s']
  note tp = template_propagates [of conv_fn x conv_weight conv_bias e F_batch_norm has_bn
      unary_fn bn_weight bn_bias bn_rm bn_rv conv bn f]
  show ?thesis
    by (rule conjI [OF h conjI [OF l conjI [OF a tp]], unfolded conj_assoc])
qed

theorem failures_propagate_witness:
  "lru_cache (initial_process 0 :: (nat, nat) process) Conv2d = None \<and>
   get_aten_graph_module example_torch
       (get_conv_unary_pattern (batch_norm example_torch) (conv2d example_torch) False None)
       (conv2d_example_inputs example_torch)
       (world (initial_process 0 :: (nat, nat) process))
     = (Inl ''tracing failed'', 1) \<and>
   generate_conv2d_pattern_matcher example_torch (initial_process 0)
     = (Inl ''tracing failed'', (initial_process 0)\<lparr>world := 1\<rparr>) \<and>
   example_failing_conv 2 3 4 = Inl ''shape mismatch'' \<and>
   get_conv_unary_pattern (batch_norm example_torch) example_failing_conv False
       (Some (relu example_torch)) 2 3 4 None None None None
     = Inl ''shape mismatch''"
proof -
  let ?s = "initial_process 0 :: (nat, nat) process"
  let ?p = "get_conv_unary_pattern (batch_norm example_torch) (conv2d example_torch)
              False None"
  have cache: "lru_cache ?s Conv2d = None"
    by (simp add: initial_process_def)
  have trace: "get_aten_graph_module example_torch ?p (conv2d_example_inputs example_torch)
                 (world ?s) = (Inl ''tracing failed'', 1)"
    by (simp add: example_torch_simps initial_process_def)
  note traced = failures_propagate
          [where t = example_torch and s = ?s and e = "''tracing failed''"
             and wa = 1 and s' = "?s\<lparr>world := 1\<rparr>" and p = ?p
             and ex = "conv2d_example_inputs example_torch"]
  have helper: "generate_pattern_matcher_helper example_torch ?p
                  (conv2d_example_inputs example_torch) ?s
                = (Inl ''tracing failed'', ?s\<lparr>world := 1\<rparr>)"
    by (rule traced [THEN conjunct1, THEN mp, OF trace])
  have accessor: "generate_conv2d_pattern_matcher example_torch ?s
                = (Inl ''tracing failed'', ?s\<lparr>world := 1\<rparr>)"
    by (rule traced [THEN conjunct2, THEN conjunct2, THEN conjunct2, THEN conjunct2,
                     THEN conjunct2, THEN conjunct1, THEN mp, THEN mp, OF cache helper])
  have conv: "example_failing_conv 2 3 4 = Inl ''shape mismatch''"
    by (simp add: example_failing_conv_def)
  note applied = failures_propagate
          [where conv_fn = example_failing_conv and x = 2 and conv_weight = 3
             and conv_bias = 4 and e = "''shape mismatch''"
             and F_batch_norm = "batch_norm example_torch" and has_bn = False
             and unary_fn = "Some (relu example_torch)"]
  have template: "get_conv_unary_pattern (batch_norm example_torch) example_failing_conv
                    False (Some (relu example_torch)) 2 3 4 None None None None
                  = Inl ''shape mismatch''"
    by (rule applied [THEN conjunct2, THEN conjunct2, THEN conjunct2, THEN conjunct2,
                      THEN conjunct2, THEN conjunct2, THEN conjunct2, THEN conjunct2,
                      THEN conjunct2, THEN conjunct2, THEN conjunct2, THEN conjunct2,
                      THEN conjunct2, THEN conjunct1, THEN mp, OF conv])
  show ?thesis
    by (intro conjI cache trace accessor conv template)
qed

end
